theory Spec2Isabelle
  imports Complex_Main
begin

section \<open>Python values and failures\<close>

text \<open>
  The notebook \<^verbatim>\<open>multi_player_dnd.ipynb\<close> defines two classes, \<^verbatim>\<open>DialogueAgent\<close> and
  \<^verbatim>\<open>DialogueSimulator\<close>, and the speaker schedule \<^verbatim>\<open>select_next_speaker\<close>.
  Python integers are unbounded, so they are \<^typ>\<open>int\<close>; Python strings are \<^typ>\<open>string\<close>.
  Every exception the modelled code can raise is a value of \<open>error\<close>.
\<close>

datatype error = IndexError | ZeroDivisionError | ModelError

text \<open>The chat messages of \<^verbatim>\<open>langchain.schema\<close>: a role and the text in \<^verbatim>\<open>.content\<close>.\<close>

datatype BaseMessage =
    SystemMessage (content: string)
  | HumanMessage (content: string)
  | AIMessage (content: string)

text \<open>\<^verbatim>\<open>sep.join(parts)\<close>: the parts with the separator between neighbours.\<close>

fun str_join :: "string \<Rightarrow> string list \<Rightarrow> string" where
  "str_join sep [] = []"
| "str_join sep [x] = x"
| "str_join sep (x # y # ys) = x @ sep @ str_join sep (y # ys)"

text \<open>
  \<^verbatim>\<open>xs[i]\<close> on a Python list: a negative index counts from the end, and an index
  outside \<open>-len(xs) .. len(xs)-1\<close> raises \<^verbatim>\<open>IndexError\<close>.
\<close>

definition list_getitem :: "'a list \<Rightarrow> int \<Rightarrow> error + 'a" where
  "list_getitem xs i =
     (if 0 \<le> i \<and> i < int (length xs) then Inr (xs ! nat i)
      else if i < 0 \<and> - int (length xs) \<le> i then Inr (xs ! nat (i + int (length xs)))
      else Inl IndexError)"

section \<open>DialogueAgent\<close>

text \<open>
  The attributes set by \<^verbatim>\<open>DialogueAgent.__init__\<close>. The chat model is an external
  service; the agent holds it as the function from the prompt (a list of messages) to
  the reply, or to the exception the call raised.
\<close>

record DialogueAgent =
  name :: string
  system_message :: BaseMessage
  model :: "BaseMessage list \<Rightarrow> error + BaseMessage"
  prefix :: string
  message_history :: "string list"

text \<open>\<^verbatim>\<open>reset\<close>: \<^verbatim>\<open>self.message_history = ["Here is the conversation so far."]\<close>\<close>

definition DialogueAgent_reset :: "DialogueAgent \<Rightarrow> DialogueAgent" where
  "DialogueAgent_reset self = self\<lparr>message_history := [''Here is the conversation so far.'']\<rparr>"

text \<open>
  \<^verbatim>\<open>__init__\<close> stores the three arguments, builds the prefix \<^verbatim>\<open>f"{self.name}: "\<close> and
  calls \<^verbatim>\<open>self.reset()\<close>, which is what creates \<^verbatim>\<open>message_history\<close>.
\<close>

definition DialogueAgent_init ::
    "string \<Rightarrow> BaseMessage \<Rightarrow> (BaseMessage list \<Rightarrow> error + BaseMessage) \<Rightarrow> DialogueAgent" where
  "DialogueAgent_init nm sysmsg mdl =
     DialogueAgent_reset
       \<lparr>name = nm, system_message = sysmsg, model = mdl, prefix = nm @ '': '',
        message_history = []\<rparr>"

text \<open>
  \<^verbatim>\<open>send\<close> calls the model on the system message and one human message holding the
  history and the prefix joined by newlines, and returns the reply's content. The
  history list it passes on is a fresh one (\<^verbatim>\<open>self.message_history + [self.prefix]\<close>).
  The result is paired with the agent after the call.
\<close>

definition DialogueAgent_send :: "DialogueAgent \<Rightarrow> (error + string) \<times> DialogueAgent" where
  "DialogueAgent_send self =
     (case model self
             [system_message self,
              HumanMessage (str_join [CHR 0x0A] (message_history self @ [prefix self]))] of
        Inl e \<Rightarrow> (Inl e, self)
      | Inr message \<Rightarrow> (Inr (content message), self))"

text \<open>\<^verbatim>\<open>receive\<close>: \<^verbatim>\<open>self.message_history.append(f"{name}: {message}")\<close>\<close>

definition DialogueAgent_receive :: "DialogueAgent \<Rightarrow> string \<Rightarrow> string \<Rightarrow> DialogueAgent" where
  "DialogueAgent_receive self nm message =
     self\<lparr>message_history := message_history self @ [nm @ '': '' @ message]\<rparr>"

text \<open>A method call on one agent, and a sequence of such calls in order.\<close>

datatype agent_call = Reset | Send | Receive string string

fun agent_do :: "DialogueAgent \<Rightarrow> agent_call \<Rightarrow> DialogueAgent" where
  "agent_do self Reset = DialogueAgent_reset self"
| "agent_do self Send = snd (DialogueAgent_send self)"
| "agent_do self (Receive nm message) = DialogueAgent_receive self nm message"

fun receive_all :: "DialogueAgent \<Rightarrow> (string \<times> string) list \<Rightarrow> DialogueAgent" where
  "receive_all self [] = self"
| "receive_all self ((nm, message) # rest) = receive_all (DialogueAgent_receive self nm message) rest"

section \<open>The speaker schedule\<close>

text \<open>
  \<^verbatim>\<open>select_next_speaker(step, agents)\<close>: index 0 on an even step, otherwise
  \<^verbatim>\<open>(step//2) % (len(agents)-1) + 1\<close>. Python's \<^verbatim>\<open>//\<close> and \<^verbatim>\<open>%\<close> round towards minus
  infinity, as \<open>div\<close> and \<open>mod\<close> on \<^typ>\<open>int\<close> do; \<^verbatim>\<open>%\<close> by zero raises.
\<close>

definition select_next_speaker :: "int \<Rightarrow> DialogueAgent list \<Rightarrow> error + int" where
  "select_next_speaker step agts =
     (if step mod 2 = 0 then Inr 0
      else if int (length agts) - 1 = 0 then Inl ZeroDivisionError
      else Inr ((step div 2) mod (int (length agts) - 1) + 1))"

section \<open>DialogueSimulator\<close>

text \<open>
  The simulator holds references to agent objects that its caller built, and the same
  object may stand in the list more than once. Agents therefore live in a store, a
  function from references to agents, and the list holds references.
  The attribute \<^verbatim>\<open>_step\<close> is \<open>sim_step\<close>, the attribute \<^verbatim>\<open>select_next_speaker\<close> is
  \<open>sim_select_next_speaker\<close>.
\<close>

type_synonym ref = nat
type_synonym heap = "ref \<Rightarrow> DialogueAgent"

record DialogueSimulator =
  agents :: "ref list"
  sim_step :: int
  sim_select_next_speaker :: "int \<Rightarrow> DialogueAgent list \<Rightarrow> error + int"


text \<open>\<^verbatim>\<open>for agent in self.agents: agent.reset()\<close>\<close>

primrec reset_loop :: "ref list \<Rightarrow> heap \<Rightarrow> heap" where
  "reset_loop [] h = h"
| "reset_loop (r # rs) h = reset_loop rs (h(r := DialogueAgent_reset (h r)))"

definition DialogueSimulator_reset :: "DialogueSimulator \<Rightarrow> heap \<Rightarrow> DialogueSimulator \<times> heap" where
  "DialogueSimulator_reset self h = (self, reset_loop (agents self) h)"

text \<open>\<^verbatim>\<open>for agent in self.agents: agent.receive(name, message)\<close>\<close>

primrec inject_loop :: "ref list \<Rightarrow> string \<Rightarrow> string \<Rightarrow> heap \<Rightarrow> heap" where
  "inject_loop [] nm message h = h"
| "inject_loop (r # rs) nm message h =
     inject_loop rs nm message (h(r := DialogueAgent_receive (h r) nm message))"

definition DialogueSimulator_inject ::
    "DialogueSimulator \<Rightarrow> heap \<Rightarrow> string \<Rightarrow> string \<Rightarrow> DialogueSimulator \<times> heap" where
  "DialogueSimulator_inject self h nm message =
     (self\<lparr>sim_step := sim_step self + 1\<rparr>, inject_loop (agents self) nm message h)"

text \<open>
  \<^verbatim>\<open>for receiver in self.agents: receiver.receive(speaker.name, message)\<close>:
  the speaker's name is read from the speaker object in every round.
\<close>

primrec step_loop :: "ref list \<Rightarrow> ref \<Rightarrow> string \<Rightarrow> heap \<Rightarrow> heap" where
  "step_loop [] speaker message h = h"
| "step_loop (r # rs) speaker message h =
     step_loop rs speaker message (h(r := DialogueAgent_receive (h r) (name (h speaker)) message))"

text \<open>
  \<^verbatim>\<open>step\<close>. The result is the returned pair or the exception, together with the
  simulator and the store as they are when the call ends: an exception leaves
  whatever was written before it was raised.
\<close>

definition DialogueSimulator_step ::
    "DialogueSimulator \<Rightarrow> heap \<Rightarrow> (error + string \<times> string) \<times> DialogueSimulator \<times> heap" where
  "DialogueSimulator_step self h =
     (case sim_select_next_speaker self (sim_step self) (map h (agents self)) of
        Inl e \<Rightarrow> (Inl e, self, h)
      | Inr speaker_idx \<Rightarrow>
          (case list_getitem (agents self) speaker_idx of
             Inl e \<Rightarrow> (Inl e, self, h)
           | Inr speaker \<Rightarrow>
               (case DialogueAgent_send (h speaker) of
                  (Inl e, speaker_obj) \<Rightarrow> (Inl e, self, h(speaker := speaker_obj))
                | (Inr message, speaker_obj) \<Rightarrow>
                    (let h1 = h(speaker := speaker_obj);
                         h2 = step_loop (agents self) speaker message h1
                     in (Inr (name (h2 speaker), message),
                         self\<lparr>sim_step := sim_step self + 1\<rparr>, h2)))))"

section \<open>Fixtures for concrete runs\<close>

text \<open>A model that always replies with a fixed text, and one whose call always fails.\<close>

definition scripted_model :: "string \<Rightarrow> BaseMessage list \<Rightarrow> error + BaseMessage" where
  "scripted_model reply prompt = Inr (AIMessage reply)"

definition failing_model :: "BaseMessage list \<Rightarrow> error + BaseMessage" where
  "failing_model prompt = Inl ModelError"

definition storyteller :: DialogueAgent where
  "storyteller =
     DialogueAgent_init ''Dungeon Master'' (SystemMessage ''You are the storyteller.'')
       (scripted_model ''A door creaks.'')"

definition harry :: DialogueAgent where
  "harry =
     DialogueAgent_init ''Harry Potter'' (SystemMessage ''Your name is Harry Potter.'')
       (scripted_model ''I draw my wand.'')"

text \<open>A store with the storyteller at reference 0 and the player everywhere else.\<close>

definition two_agent_heap :: heap where
  "two_agent_heap r = (if r = 0 then storyteller else harry)"

text \<open>A selection function that answers the same index at every step.\<close>

definition select_constant :: "int \<Rightarrow> int \<Rightarrow> DialogueAgent list \<Rightarrow> error + int" where
  "select_constant k step agts = Inr k"

definition two_agent_sim :: DialogueSimulator where
  "two_agent_sim =
     \<lparr>agents = [0, 1], sim_step = 0, sim_select_next_speaker = select_next_speaker\<rparr>"

definition minus_one_sim :: DialogueSimulator where
  "minus_one_sim =
     \<lparr>agents = [0, 1], sim_step = 0, sim_select_next_speaker = select_constant (- 1)\<rparr>"

definition beyond_end_sim :: DialogueSimulator where
  "beyond_end_sim =
     \<lparr>agents = [0, 1], sim_step = 0, sim_select_next_speaker = select_constant 2\<rparr>"

text \<open>A simulator whose list names the same agent object twice.\<close>

definition twice_listed_sim :: DialogueSimulator where
  "twice_listed_sim =
     \<lparr>agents = [1, 1], sim_step = 0, sim_select_next_speaker = select_next_speaker\<rparr>"

text \<open>The two-agent simulation after the opening \<^verbatim>\<open>inject\<close> of the main loop.\<close>

definition after_inject :: "DialogueSimulator \<times> heap" where
  "after_inject =
     DialogueSimulator_inject two_agent_sim two_agent_heap ''Dungeon Master'' ''Find the horcruxes.''"

section \<open>The relevance score on binary64 floats\<close>

text \<open>
  \<^verbatim>\<open>relevance_score_fn\<close> of the generative-agents notebook works on Python floats, which
  are IEEE-754 binary64 numbers. A finite binary64 value is \<open>m * 2^e\<close> with an integer
  \<open>\<bar>m\<bar> < 2^53\<close> and \<open>-1074 \<le> e \<le> 971\<close> (normal and subnormal numbers and zero);
  with \<open>k = e + 1074\<close> they are the reals below. Infinities and NaN are not modelled.
\<close>

definition doubles :: "real set" where
  "doubles = (\<lambda>(m, k). real_of_int (m * 2 ^ k) / 2 ^ 1074) `
               ({- (2 ^ 53) <..< 2 ^ 53} \<times> {..2045})"

text \<open>The doubles at the least distance from a real: one of them, or two on a tie.\<close>

definition nearest_doubles :: "real \<Rightarrow> real set" where
  "nearest_doubles x = {y \<in> doubles. \<forall>z \<in> doubles. \<bar>x - y\<bar> \<le> \<bar>x - z\<bar>}"

text \<open>
  Rounding to nearest, ties to even, the rounding of every Python float operation:
  the nearest double, and on a tie between the neighbours \<open>lo < hi\<close> the one whose
  significand is even, which is \<open>lo\<close> exactly when \<open>lo / (hi - lo)\<close> is an even integer.
  A real beyond the largest double by half a unit or more overflows to infinity in
  IEEE arithmetic and lies outside this model; \<^verbatim>\<open>relevance_score_fn\<close> on a finite score
  stays far from it, since it divides by a number above 1 and subtracts from 1.
\<close>

definition round_nearest_even :: "real \<Rightarrow> real" where
  "round_nearest_even x =
     (let lo = Min (nearest_doubles x); hi = Max (nearest_doubles x)
      in if lo = hi then lo
         else if even \<lfloor>lo / (hi - lo)\<rfloor> then lo else hi)"

text \<open>\<^verbatim>\<open>math.sqrt(2)\<close>: the correctly rounded square root.\<close>

definition math_sqrt_2 :: real where
  "math_sqrt_2 = round_nearest_even (sqrt 2)"

text \<open>
  \<^verbatim>\<open>return 1.0 - score / math.sqrt(2)\<close>: a float division and a float subtraction,
  each rounded; \<^verbatim>\<open>1.0\<close> is a double.
\<close>

definition relevance_score_fn :: "real \<Rightarrow> real" where
  "relevance_score_fn score =
     round_nearest_even (1 - round_nearest_even (score / math_sqrt_2))"

section \<open>Facts about one agent\<close>

lemma receive_fields [simp]:
  "name (DialogueAgent_receive a nm message) = name a"
  "system_message (DialogueAgent_receive a nm message) = system_message a"
  "model (DialogueAgent_receive a nm message) = model a"
  "prefix (DialogueAgent_receive a nm message) = prefix a"
  "message_history (DialogueAgent_receive a nm message) = message_history a @ [nm @ '': '' @ message]"
  by (simp_all add: DialogueAgent_receive_def)

lemma reset_fields [simp]:
  "name (DialogueAgent_reset a) = name a"
  "system_message (DialogueAgent_reset a) = system_message a"
  "model (DialogueAgent_reset a) = model a"
  "prefix (DialogueAgent_reset a) = prefix a"
  "message_history (DialogueAgent_reset a) = [''Here is the conversation so far.'']"
  by (simp_all add: DialogueAgent_reset_def)

lemma send_keeps_agent [simp]: "snd (DialogueAgent_send a) = a"
  by (simp add: DialogueAgent_send_def split: sum.splits)

lemma history_receive_all:
  "message_history (receive_all a msgs) =
     message_history a @ map (\<lambda>(nm, message). nm @ '': '' @ message) msgs"
  by (induction a msgs rule: receive_all.induct) simp_all

lemma reset_twice [simp]: "DialogueAgent_reset (DialogueAgent_reset a) = DialogueAgent_reset a"
  by (simp add: DialogueAgent_reset_def)

lemma calls_keep_first:
  "\<exists>rest. message_history a = ''Here is the conversation so far.'' # rest \<Longrightarrow>
   \<exists>rest. message_history (foldl agent_do a cs) = ''Here is the conversation so far.'' # rest"
proof (induction cs arbitrary: a)
  case Nil
  then show ?case by simp
next
  case (Cons c cs)
  have "\<exists>rest. message_history (agent_do a c) = ''Here is the conversation so far.'' # rest"
  proof (cases c)
    case Reset
    then show ?thesis by simp
  next
    case Send
    with Cons.prems show ?thesis by simp
  next
    case (Receive nm message)
    with Cons.prems show ?thesis by auto
  qed
  from Cons.IH[OF this] show ?case by simp
qed

lemma send_result:
  "fst (DialogueAgent_send a) = Inr message \<Longrightarrow> DialogueAgent_send a = (Inr message, a)"
  by (metis prod.collapse send_keeps_agent)

section \<open>Facts about the loops over the agent list\<close>

text \<open>
  A broadcast appends the entry to an agent once for every place the agent has in the
  list, and touches no other attribute and no other agent.
\<close>

lemma inject_loop_eq:
  "inject_loop rs nm message h =
     (\<lambda>r. (h r)\<lparr>message_history :=
              message_history (h r) @ replicate (count_list rs r) (nm @ '': '' @ message)\<rparr>)"
proof (induction rs arbitrary: h)
  case Nil
  show ?case by simp
next
  case (Cons r0 rs)
  show ?case
    unfolding inject_loop.simps Cons.IH
    by (rule ext) (simp add: DialogueAgent_receive_def replicate_app_Cons_same)
qed

lemma step_loop_eq:
  "step_loop rs speaker message h = inject_loop rs (name (h speaker)) message h"
proof (induction rs arbitrary: h)
  case Nil
  show ?case by simp
next
  case (Cons r0 rs)
  define h' where "h' = h(r0 := DialogueAgent_receive (h r0) (name (h speaker)) message)"
  have nm: "name (h' speaker) = name (h speaker)"
    by (simp add: h'_def)
  have "step_loop (r0 # rs) speaker message h = step_loop rs speaker message h'"
    by (simp add: h'_def)
  also have "\<dots> = inject_loop rs (name (h' speaker)) message h'"
    by (rule Cons.IH)
  also have "\<dots> = inject_loop (r0 # rs) (name (h speaker)) message h"
    unfolding nm by (simp only: inject_loop.simps h'_def)
  finally show ?case .
qed

lemma reset_loop_eq:
  "reset_loop rs h = (\<lambda>r. if r \<in> set rs then DialogueAgent_reset (h r) else h r)"
proof (induction rs arbitrary: h)
  case Nil
  show ?case by simp
next
  case (Cons r0 rs)
  show ?case
    unfolding reset_loop.simps Cons.IH
    by (rule ext) simp
qed

text \<open>An agent object listed twice receives each broadcast twice.\<close>

lemma inject_agent_listed_twice:
  "message_history
     (snd (DialogueSimulator_inject twice_listed_sim two_agent_heap ''Dungeon Master'' ''Go on.'') 1) =
     [''Here is the conversation so far.'', ''Dungeon Master: Go on.'', ''Dungeon Master: Go on.'']"
  by (simp add: DialogueSimulator_inject_def twice_listed_sim_def two_agent_heap_def harry_def
      DialogueAgent_init_def)

lemma count_list_pos: "r \<in> set rs \<Longrightarrow> 0 < count_list rs r"
  by (induction rs) auto

lemma count_list_distinct: "distinct rs \<Longrightarrow> r \<in> set rs \<Longrightarrow> count_list rs r = 1"
  by (induction rs) auto

section \<open>Facts about indexing and one step\<close>

lemma getitem_in_range:
  "0 \<le> i \<Longrightarrow> i < int (length xs) \<Longrightarrow> list_getitem xs i = Inr (xs ! nat i)"
  by (simp add: list_getitem_def)

lemma getitem_out_of_range:
  "i < - int (length xs) \<or> int (length xs) \<le> i \<Longrightarrow> list_getitem xs i = Inl IndexError"
  by (auto simp: list_getitem_def)

lemma step_success:
  assumes "sim_select_next_speaker sim (sim_step sim) (map h (agents sim)) = Inr idx"
    and "list_getitem (agents sim) idx = Inr speaker"
    and "fst (DialogueAgent_send (h speaker)) = Inr message"
  shows "DialogueSimulator_step sim h =
           (Inr (name (h speaker), message), sim\<lparr>sim_step := sim_step sim + 1\<rparr>,
            (\<lambda>r. (h r)\<lparr>message_history := message_history (h r) @
                     replicate (count_list (agents sim) r) (name (h speaker) @ '': '' @ message)\<rparr>))"
proof -
  have s: "DialogueAgent_send (h speaker) = (Inr message, h speaker)"
    using assms(3) by (rule send_result)
  have "DialogueSimulator_step sim h =
          (Inr (name (step_loop (agents sim) speaker message h speaker), message),
           sim\<lparr>sim_step := sim_step sim + 1\<rparr>,
           step_loop (agents sim) speaker message h)"
    unfolding DialogueSimulator_step_def by (simp add: assms(1,2) s Let_def)
  then show ?thesis
    by (simp add: step_loop_eq inject_loop_eq)
qed

text \<open>Whenever \<^verbatim>\<open>step\<close> returns a pair, the counter has gone up by one.\<close>

lemma step_counter:
  "fst (DialogueSimulator_step sim h) = Inr res \<Longrightarrow>
   sim_step (fst (snd (DialogueSimulator_step sim h))) = sim_step sim + 1"
  unfolding DialogueSimulator_step_def
  by (auto simp: Let_def split: sum.splits prod.splits)


lemma getitem_negative:
  "- int (length xs) \<le> i \<Longrightarrow> i < 0 \<Longrightarrow> list_getitem xs i = Inr (xs ! nat (int (length xs) + i))"
  by (simp add: list_getitem_def add.commute)

lemma step_send_fails:
  assumes "sim_select_next_speaker sim (sim_step sim) (map h (agents sim)) = Inr idx"
    and "list_getitem (agents sim) idx = Inr speaker"
    and "fst (DialogueAgent_send (h speaker)) = Inl e"
  shows "DialogueSimulator_step sim h = (Inl e, sim, h)"
proof -
  have s: "DialogueAgent_send (h speaker) = (Inl e, h speaker)"
    using assms(3) by (metis prod.collapse send_keeps_agent)
  show ?thesis
    unfolding DialogueSimulator_step_def by (simp add: assms(1,2) s)
qed

lemma step_with_speaker:
  assumes "sim_select_next_speaker sim (sim_step sim) (map h (agents sim)) = Inr idx"
    and "list_getitem (agents sim) idx = Inr speaker"
  shows "DialogueSimulator_step sim h =
           (case fst (DialogueAgent_send (h speaker)) of
              Inl e \<Rightarrow> (Inl e, sim, h)
            | Inr message \<Rightarrow>
                (Inr (name (h speaker), message), sim\<lparr>sim_step := sim_step sim + 1\<rparr>,
                 (\<lambda>r. (h r)\<lparr>message_history := message_history (h r) @
                          replicate (count_list (agents sim) r)
                            (name (h speaker) @ '': '' @ message)\<rparr>)))"
proof (cases "fst (DialogueAgent_send (h speaker))")
  case (Inl e)
  with step_send_fails[OF assms Inl] show ?thesis by simp
next
  case (Inr message)
  with step_success[OF assms Inr] show ?thesis by simp
qed

section \<open>Facts about binary64 rounding\<close>

lemma doublesI:
  "- (2 ^ 53) < m \<Longrightarrow> m < 2 ^ 53 \<Longrightarrow> k \<le> 2045 \<Longrightarrow> real_of_int (m * 2 ^ k) / 2 ^ 1074 \<in> doubles"
  unfolding doubles_def by (rule image_eqI[where x = "(m, k)"]) auto

lemma doublesE:
  assumes "d \<in> doubles"
  obtains m k where "- (2 ^ 53) < m" "m < 2 ^ 53" "k \<le> 2045" "d = real_of_int (m * 2 ^ k) / 2 ^ 1074"
  using assms unfolding doubles_def by auto

lemma finite_doubles: "finite doubles"
  unfolding doubles_def by (intro finite_imageI finite_cartesian_product) simp_all

lemma zero_double: "0 \<in> doubles"
  using doublesI[of 0 0] by simp

lemma one_double: "1 \<in> doubles"
  using doublesI[of 1 1074] by simp

lemma tiny_double: "1 / 2 ^ 60 \<in> doubles"
proof -
  have "real_of_int (1 * 2 ^ 1014) / 2 ^ 1074 = 1 / 2 ^ 60"
    by simp
  with doublesI[of 1 1014] show ?thesis by simp
qed

lemma nearest_doubles_finite: "finite (nearest_doubles x)"
  unfolding nearest_doubles_def using finite_doubles by simp

lemma nearest_doubles_nonempty: "nearest_doubles x \<noteq> {}"
proof -
  let ?D = "(\<lambda>z. \<bar>x - z\<bar>) ` doubles"
  have fin: "finite ?D" using finite_doubles by simp
  have ne: "?D \<noteq> {}" using zero_double by auto
  from Min_in[OF fin ne] obtain y where y: "y \<in> doubles" "Min ?D = \<bar>x - y\<bar>"
    by auto
  have "\<bar>x - y\<bar> \<le> \<bar>x - z\<bar>" if "z \<in> doubles" for z
    using Min_le[OF fin, of "\<bar>x - z\<bar>"] that y(2) by simp
  with y(1) have "y \<in> nearest_doubles x"
    by (simp add: nearest_doubles_def)
  then show ?thesis by blast
qed

lemma round_in_nearest: "round_nearest_even x \<in> nearest_doubles x"
proof -
  have lo: "Min (nearest_doubles x) \<in> nearest_doubles x"
    by (rule Min_in[OF nearest_doubles_finite nearest_doubles_nonempty])
  have hi: "Max (nearest_doubles x) \<in> nearest_doubles x"
    by (rule Max_in[OF nearest_doubles_finite nearest_doubles_nonempty])
  show ?thesis
    unfolding round_nearest_even_def Let_def using lo hi by simp
qed

lemma round_is_double: "round_nearest_even x \<in> doubles"
  using round_in_nearest[of x] by (simp add: nearest_doubles_def)

lemma round_is_nearest: "z \<in> doubles \<Longrightarrow> \<bar>x - round_nearest_even x\<bar> \<le> \<bar>x - z\<bar>"
  using round_in_nearest[of x] by (simp add: nearest_doubles_def)

lemma round_above: "d \<in> doubles \<Longrightarrow> d \<le> x \<Longrightarrow> d \<le> round_nearest_even x"
  using round_is_nearest[of d x] by linarith

lemma round_below: "d \<in> doubles \<Longrightarrow> x \<le> d \<Longrightarrow> round_nearest_even x \<le> d"
  using round_is_nearest[of d x] by linarith

lemma round_double: "d \<in> doubles \<Longrightarrow> round_nearest_even d = d"
  using round_above[of d d] round_below[of d d] by simp

lemma round_mono: "x \<le> y \<Longrightarrow> round_nearest_even x \<le> round_nearest_even y"
proof (cases "x = y")
  case True
  then show ?thesis by simp
next
  case False
  assume "x \<le> y"
  with False have "x < y" by simp
  with round_is_nearest[OF round_is_double[of y], of x]
    round_is_nearest[OF round_is_double[of x], of y]
  show ?thesis by linarith
qed

lemma double_near_one:
  assumes "d \<in> doubles" and "\<bar>d - 1\<bar> \<le> 1 / 2 ^ 59"
  shows "d = 1"
proof -
  from assms(1) obtain m k where mk: "- (2 ^ 53) < m" "m < 2 ^ 53" "k \<le> 2045"
    "d = real_of_int (m * 2 ^ k) / 2 ^ 1074"
    by (rule doublesE)
  show ?thesis
  proof (cases "k \<le> 1020")
    case True
    have "(2::int) ^ k \<le> 2 ^ 1020"
      using True by (intro power_increasing) simp_all
    with mk(2) have "m * 2 ^ k \<le> 2 ^ 53 * 2 ^ 1020"
      by (intro mult_mono) simp_all
    then have "real_of_int (m * 2 ^ k) \<le> real_of_int (2 ^ 53 * 2 ^ 1020)"
      by (rule of_int_le_iff[THEN iffD2])
    then have "d \<le> real_of_int (2 ^ 53 * 2 ^ 1020) / 2 ^ 1074"
      unfolding mk(4) by (rule divide_right_mono) simp
    also have "\<dots> = 1 / 2"
      by simp
    finally have "d \<le> 1 / 2" .
    with assms(2) show ?thesis by simp
  next
    case False
    define n where "n = m * 2 ^ (k - 1021)"
    from False have "k = (k - 1021) + 1021" by simp
    then have "(2::int) ^ k = 2 ^ (k - 1021) * 2 ^ 1021"
      by (metis power_add)
    then have "d = real_of_int (n * 2 ^ 1021) / 2 ^ 1074"
      by (simp add: mk(4) n_def mult.assoc)
    also have "\<dots> = real_of_int n / 2 ^ 53"
      by simp
    finally have d: "d = real_of_int n / 2 ^ 53" .
    from assms(2) have "\<bar>real_of_int n - 2 ^ 53\<bar> \<le> 2 ^ 53 / 2 ^ 59"
      unfolding d by (simp add: field_simps abs_le_iff)
    then have "\<bar>real_of_int n - 2 ^ 53\<bar> < 1"
      by simp
    then have "\<bar>real_of_int (n - 2 ^ 53)\<bar> < 1"
      by simp
    then have "n - 2 ^ 53 = 0"
      by linarith
    then show ?thesis
      by (simp add: d)
  qed
qed

lemma sqrt2_at_least_one: "1 \<le> math_sqrt_2"
  unfolding math_sqrt_2_def by (rule round_above[OF one_double]) simp

lemma relevance_zero: "relevance_score_fn 0 = 1"
  by (simp add: relevance_score_fn_def round_double zero_double one_double)

lemma relevance_sqrt2: "relevance_score_fn math_sqrt_2 = 0"
  using sqrt2_at_least_one
  by (simp add: relevance_score_fn_def round_double zero_double one_double)

lemma relevance_range:
  assumes "0 \<le> score" and "score \<le> math_sqrt_2"
  shows "0 \<le> relevance_score_fn score \<and> relevance_score_fn score \<le> 1"
proof -
  let ?q = "round_nearest_even (score / math_sqrt_2)"
  have pos: "0 < math_sqrt_2" using sqrt2_at_least_one by simp
  have "0 \<le> score / math_sqrt_2" "score / math_sqrt_2 \<le> 1"
    using assms pos by simp_all
  then have "0 \<le> ?q" "?q \<le> 1"
    by (simp_all add: round_above[OF zero_double] round_below[OF one_double])
  then have "0 \<le> 1 - ?q" "1 - ?q \<le> 1"
    by simp_all
  then show ?thesis
    unfolding relevance_score_fn_def
    by (simp add: round_above[OF zero_double] round_below[OF one_double])
qed

lemma double_below_sqrt2: "score \<in> doubles \<Longrightarrow> score \<le> sqrt 2 \<Longrightarrow> score \<le> math_sqrt_2"
  unfolding math_sqrt_2_def by (rule round_above)

lemma relevance_antimono:
  assumes "s1 \<le> s2"
  shows "relevance_score_fn s2 \<le> relevance_score_fn s1"
proof -
  have pos: "0 < math_sqrt_2" using sqrt2_at_least_one by simp
  from assms pos have "s1 / math_sqrt_2 \<le> s2 / math_sqrt_2"
    by (simp add: divide_right_mono)
  then have "round_nearest_even (s1 / math_sqrt_2) \<le> round_nearest_even (s2 / math_sqrt_2)"
    by (rule round_mono)
  then have "1 - round_nearest_even (s2 / math_sqrt_2) \<le> 1 - round_nearest_even (s1 / math_sqrt_2)"
    by simp
  then show ?thesis
    unfolding relevance_score_fn_def by (rule round_mono)
qed

lemma relevance_tiny: "relevance_score_fn (1 / 2 ^ 60) = 1"
proof -
  let ?x = "(1 / 2 ^ 60) / math_sqrt_2"
  let ?q = "round_nearest_even ?x"
  have pos: "0 < math_sqrt_2" using sqrt2_at_least_one by simp
  have x0: "0 \<le> ?x" using pos by simp
  have "?x \<le> (1 / 2 ^ 60) / 1"
    using sqrt2_at_least_one by (intro divide_left_mono) simp_all
  then have x1: "?x \<le> 1 / 2 ^ 60" by simp
  have q0: "0 \<le> ?q" using x0 by (rule round_above[OF zero_double])
  have q1: "?q \<le> 1 / 2 ^ 60" using x1 by (rule round_below[OF tiny_double])
  let ?r = "round_nearest_even (1 - ?q)"
  have "\<bar>(1 - ?q) - ?r\<bar> \<le> \<bar>(1 - ?q) - 1\<bar>"
    by (rule round_is_nearest[OF one_double])
  with q0 q1 have "\<bar>?r - 1\<bar> \<le> 2 * (1 / 2 ^ 60)"
    by linarith
  then have "\<bar>?r - 1\<bar> \<le> 1 / 2 ^ 59"
    by simp
  with round_is_double have "?r = 1"
    by (rule double_near_one)
  then show ?thesis
    by (simp add: relevance_score_fn_def)
qed

text \<open>From 1 on, the doubles lie on the grid of multiples of \<open>2^-52\<close>.\<close>

lemma double_from_one:
  assumes "d \<in> doubles" and "1 \<le> d"
  obtains n :: int where "d = real_of_int n / 2 ^ 52"
proof -
  from assms(1) obtain m k where mk: "- (2 ^ 53) < m" "m < 2 ^ 53" "k \<le> 2045"
    "d = real_of_int (m * 2 ^ k) / 2 ^ 1074"
    by (rule doublesE)
  have "1021 < k"
  proof (rule ccontr)
    assume "\<not> 1021 < k"
    then have "(2::int) ^ k \<le> 2 ^ 1021"
      by (intro power_increasing) simp_all
    moreover from mk(2) have "m \<le> 2 ^ 53 - 1" by simp
    ultimately have "m * 2 ^ k \<le> (2 ^ 53 - 1) * 2 ^ 1021"
      by (intro mult_mono) simp_all
    then have "real_of_int (m * 2 ^ k) \<le> real_of_int ((2 ^ 53 - 1) * 2 ^ 1021)"
      by (rule of_int_le_iff[THEN iffD2])
    then have "d \<le> real_of_int ((2 ^ 53 - 1) * 2 ^ 1021) / 2 ^ 1074"
      unfolding mk(4) by (rule divide_right_mono) simp
    also have "\<dots> < 1"
      by simp
    finally show False using assms(2) by simp
  qed
  then have "k = (k - 1022) + 1022" by simp
  then have "(2::int) ^ k = 2 ^ (k - 1022) * 2 ^ 1022"
    by (metis power_add)
  then have "d = real_of_int ((m * 2 ^ (k - 1022)) * 2 ^ 1022) / 2 ^ 1074"
    by (simp add: mk(4) mult.assoc)
  also have "\<dots> = real_of_int (m * 2 ^ (k - 1022)) / 2 ^ 52"
    by simp
  finally show ?thesis by (rule that)
qed

lemma nearest_candidates:
  assumes "1 + 1 / 2 ^ 53 \<le> x" and "y \<in> nearest_doubles x" and "c \<in> doubles"
    and "\<bar>x - c\<bar> \<le> 1 / 2 ^ 53"
  obtains n :: int where "y = real_of_int n / 2 ^ 52" "\<bar>x - real_of_int n / 2 ^ 52\<bar> \<le> \<bar>x - c\<bar>"
proof -
  from assms(2) have y: "y \<in> doubles" "\<bar>x - y\<bar> \<le> \<bar>x - c\<bar>"
    using assms(3) by (simp_all add: nearest_doubles_def)
  with assms(1,4) have "1 \<le> y" by (simp add: abs_le_iff)
  with y(1) obtain n :: int where "y = real_of_int n / 2 ^ 52"
    by (rule double_from_one)
  with y(2) show ?thesis by (intro that) simp_all
qed


lemma round_unique:
  assumes "c \<in> doubles" and "1 + 1 / 2 ^ 53 \<le> x" and "c = real_of_int n0 / 2 ^ 52"
    and "\<bar>x - c\<bar> < 1 / 2 ^ 53"
  shows "round_nearest_even x = c"
proof -
  have "y = c" if "y \<in> nearest_doubles x" for y
  proof -
    from assms(4) have "\<bar>x - c\<bar> \<le> 1 / 2 ^ 53" by simp
    with assms(2) that assms(1) obtain n :: int where
      n: "y = real_of_int n / 2 ^ 52" "\<bar>x - real_of_int n / 2 ^ 52\<bar> \<le> \<bar>x - c\<bar>"
      by (rule nearest_candidates)
    from n(2) assms(4) have "\<bar>real_of_int n / 2 ^ 52 - c\<bar> < 2 * (1 / 2 ^ 53)"
      by linarith
    then have "\<bar>real_of_int n - real_of_int n0\<bar> < 1"
      unfolding assms(3) by (simp add: field_simps abs_less_iff)
    then have "\<bar>real_of_int (n - n0)\<bar> < 1" by simp
    then have "n = n0" by linarith
    with n(1) assms(3) show ?thesis by simp
  qed
  with nearest_doubles_nonempty[of x] have "nearest_doubles x = {c}"
    by blast
  then show ?thesis
    by (simp add: round_nearest_even_def)
qed

lemma round_tie:
  assumes "lo \<in> doubles" and "hi \<in> doubles"
    and "lo = real_of_int n0 / 2 ^ 52" and "hi = real_of_int (n0 + 1) / 2 ^ 52"
    and "x = real_of_int (2 * n0 + 1) / 2 ^ 53" and "1 + 1 / 2 ^ 53 \<le> x"
  shows "round_nearest_even x = (if even n0 then lo else hi)"
proof -
  have dlo: "\<bar>x - lo\<bar> = 1 / 2 ^ 53" and dhi: "\<bar>x - hi\<bar> = 1 / 2 ^ 53"
    unfolding assms(3,4,5) by (simp_all add: field_simps)
  have far: "1 / 2 ^ 53 \<le> \<bar>x - z\<bar>" if "z \<in> doubles" for z
  proof (cases "1 \<le> z")
    case True
    with that obtain n :: int where n: "z = real_of_int n / 2 ^ 52"
      by (rule double_from_one)
    have "2 * n0 + 1 - 2 * n \<noteq> 0" by presburger
    then have "1 \<le> \<bar>2 * n0 + 1 - 2 * n\<bar>" by linarith
    then have "1 \<le> \<bar>real_of_int (2 * n0 + 1 - 2 * n)\<bar>"
      by (metis of_int_abs of_int_1_le_iff)
    then have "1 \<le> \<bar>real_of_int (2 * n0 + 1) - 2 * real_of_int n\<bar>"
      by simp
    then have "1 / 2 ^ 53 \<le> \<bar>real_of_int (2 * n0 + 1) - 2 * real_of_int n\<bar> / 2 ^ 53"
      by (rule divide_right_mono) simp
    also have "\<dots> = \<bar>(real_of_int (2 * n0 + 1) - 2 * real_of_int n) / 2 ^ 53\<bar>"
      by simp
    also have "(real_of_int (2 * n0 + 1) - 2 * real_of_int n) / 2 ^ 53 = x - z"
      unfolding assms(5) n by (simp add: field_simps)
    finally show ?thesis .
  next
    case False
    with assms(6) show ?thesis by simp
  qed
  have lo_in: "lo \<in> nearest_doubles x" and hi_in: "hi \<in> nearest_doubles x"
    using assms(1,2) far by (simp_all add: nearest_doubles_def dlo dhi)
  have only: "y = lo \<or> y = hi" if "y \<in> nearest_doubles x" for y
  proof -
    from dlo have "\<bar>x - lo\<bar> \<le> 1 / 2 ^ 53" by simp
    with assms(6) that assms(1) obtain n :: int where
      n: "y = real_of_int n / 2 ^ 52" "\<bar>x - real_of_int n / 2 ^ 52\<bar> \<le> \<bar>x - lo\<bar>"
      by (rule nearest_candidates)
    from n(2) have "\<bar>real_of_int (2 * n0 + 1) - 2 * real_of_int n\<bar> \<le> 1"
      unfolding dlo unfolding assms(5) by (simp add: field_simps abs_le_iff)
    then have "\<bar>real_of_int (2 * n0 + 1 - 2 * n)\<bar> \<le> 1" by simp
    then have "\<bar>2 * n0 + 1 - 2 * n\<bar> \<le> 1" by linarith
    then have "n = n0 \<or> n = n0 + 1" by linarith
    with n(1) assms(3,4) show ?thesis by auto
  qed
  from lo_in hi_in only have set: "nearest_doubles x = {lo, hi}"
    by blast
  have lt: "lo < hi"
    unfolding assms(3,4) by (simp add: field_simps)
  have gap: "hi - lo = 1 / 2 ^ 52"
    unfolding assms(3,4) by (simp add: field_simps)
  have q: "lo / (hi - lo) = real_of_int n0"
    unfolding gap unfolding assms(3) by simp
  from lt have "Min {lo, hi} = lo" "Max {lo, hi} = hi"
    by simp_all
  with lt show ?thesis
    by (simp add: round_nearest_even_def set q)
qed

text \<open>
  The model gives Python's values: \<^verbatim>\<open>math.sqrt(2)\<close> is \<^verbatim>\<open>0x1.6a09e667f3bcdp+0\<close>, and a
  tie goes to the neighbour with the even significand, downwards at \<open>1 + 2^-53\<close> and
  upwards at \<open>1 + 3 * 2^-53\<close>.
\<close>

lemma math_sqrt_2_value: "math_sqrt_2 = 6369051672525773 / 2 ^ 52"
proof -
  let ?c = "real_of_int 6369051672525773 / 2 ^ 52"
  have c: "?c \<in> doubles"
    using doublesI[of 6369051672525773 1022] by simp
  have "(?c - 1 / 2 ^ 53)\<^sup>2 < 2"
    by (simp add: power2_eq_square field_simps)
  then have lo: "?c - 1 / 2 ^ 53 < sqrt 2"
    by (rule real_less_rsqrt)
  have "2 < (?c + 1 / 2 ^ 53)\<^sup>2"
    by (simp add: power2_eq_square field_simps)
  then have hi: "sqrt 2 < ?c + 1 / 2 ^ 53"
    by (intro real_less_lsqrt) simp_all
  from lo hi have near: "\<bar>sqrt 2 - ?c\<bar> < 1 / 2 ^ 53"
    by linarith
  from lo have big: "1 + 1 / 2 ^ 53 \<le> sqrt 2"
    by simp
  have "round_nearest_even (sqrt 2) = ?c"
    using c big refl near by (rule round_unique)
  then show ?thesis
    by (simp add: math_sqrt_2_def)
qed

lemma round_tie_to_even_down: "round_nearest_even (1 + 1 / 2 ^ 53) = 1"
proof -
  have hi: "real_of_int (2 ^ 52 + 1) / 2 ^ 52 \<in> doubles"
    using doublesI[of "2 ^ 52 + 1" 1022] by simp
  have lo: "real_of_int (2 ^ 52) / 2 ^ 52 \<in> doubles"
    using one_double by simp
  have x: "1 + 1 / 2 ^ 53 = real_of_int (2 * 2 ^ 52 + 1) / 2 ^ 53"
    by simp
  have "round_nearest_even (1 + 1 / 2 ^ 53) =
          (if even ((2::int) ^ 52) then real_of_int (2 ^ 52) / 2 ^ 52
           else real_of_int (2 ^ 52 + 1) / 2 ^ 52)"
    using lo hi refl refl x by (rule round_tie) simp
  then show ?thesis by simp
qed

lemma round_tie_to_even_up: "round_nearest_even (1 + 3 / 2 ^ 53) = 1 + 1 / 2 ^ 51"
proof -
  have lo: "real_of_int (2 ^ 52 + 1) / 2 ^ 52 \<in> doubles"
    using doublesI[of "2 ^ 52 + 1" 1022] by simp
  have hi: "real_of_int ((2 ^ 52 + 1) + 1) / 2 ^ 52 \<in> doubles"
    using doublesI[of "2 ^ 52 + 2" 1022] by simp
  have x: "1 + 3 / 2 ^ 53 = real_of_int (2 * (2 ^ 52 + 1) + 1) / 2 ^ 53"
    by simp
  have "round_nearest_even (1 + 3 / 2 ^ 53) =
          (if even ((2::int) ^ 52 + 1) then real_of_int (2 ^ 52 + 1) / 2 ^ 52
           else real_of_int ((2 ^ 52 + 1) + 1) / 2 ^ 52)"
    using lo hi refl refl x by (rule round_tie) simp
  then show ?thesis by simp
qed

section \<open>The claims\<close>

text \<open>
  C1. When the selection function returns a valid index and the speaker's \<^verbatim>\<open>send\<close>
  produces a message, one call of \<^verbatim>\<open>step\<close> returns the pair of the selected speaker's
  name and that message, and appends the entry \<^verbatim>\<open>"{speaker_name}: {message}"\<close> to the
  transcript of every agent in the list, the speaker's own included. The store after the
  call is given in full: an agent gains the entry once for each place it has in the
  list, so exactly once when the list names no agent twice.
\<close>

theorem step_returns_speaker_and_broadcasts:
  assumes "sim_select_next_speaker sim (sim_step sim) (map h (agents sim)) = Inr idx"
    and "0 \<le> idx" and "idx < int (length (agents sim))"
    and "speaker = agents sim ! nat idx"
    and "fst (DialogueAgent_send (h speaker)) = Inr message"
    and "entry = name (h speaker) @ '': '' @ message"
  shows "DialogueSimulator_step sim h =
           (Inr (name (h speaker), message), sim\<lparr>sim_step := sim_step sim + 1\<rparr>,
            (\<lambda>r. (h r)\<lparr>message_history :=
                     message_history (h r) @ replicate (count_list (agents sim) r) entry\<rparr>))
       \<and> speaker \<in> set (agents sim)
       \<and> (\<forall>r \<in> set (agents sim). \<exists>k > 0.
             message_history (snd (snd (DialogueSimulator_step sim h)) r) =
               message_history (h r) @ replicate k entry)
       \<and> (distinct (agents sim) \<longrightarrow>
            (\<forall>r \<in> set (agents sim).
               message_history (snd (snd (DialogueSimulator_step sim h)) r) =
                 message_history (h r) @ [entry]))"
proof -
  have get: "list_getitem (agents sim) idx = Inr speaker"
    using assms(2,3,4) by (simp add: getitem_in_range)
  have run: "DialogueSimulator_step sim h =
           (Inr (name (h speaker), message), sim\<lparr>sim_step := sim_step sim + 1\<rparr>,
            (\<lambda>r. (h r)\<lparr>message_history :=
                     message_history (h r) @ replicate (count_list (agents sim) r) entry\<rparr>))"
    unfolding assms(6) using assms(1) get assms(5) by (rule step_success)
  have mem: "speaker \<in> set (agents sim)"
    using assms(2,3,4) by simp
  have some: "\<exists>k > 0. message_history (snd (snd (DialogueSimulator_step sim h)) r) =
                 message_history (h r) @ replicate k entry"
    if "r \<in> set (agents sim)" for r
    using count_list_pos[OF that] by (auto simp: run)
  have one: "message_history (snd (snd (DialogueSimulator_step sim h)) r) =
                 message_history (h r) @ [entry]"
    if "distinct (agents sim)" "r \<in> set (agents sim)" for r
    using count_list_distinct[OF that] by (simp add: run)
  from run mem some one show ?thesis by blast
qed

theorem step_returns_speaker_and_broadcasts_witness:
  "DialogueSimulator_step two_agent_sim two_agent_heap =
     (Inr (''Dungeon Master'', ''A door creaks.''), two_agent_sim\<lparr>sim_step := 1\<rparr>,
      (\<lambda>r. (two_agent_heap r)\<lparr>message_history :=
               message_history (two_agent_heap r) @
                 replicate (count_list [0, 1] r) ''Dungeon Master: A door creaks.''\<rparr>))
   \<and> message_history (snd (snd (DialogueSimulator_step two_agent_sim two_agent_heap)) 0) =
       [''Here is the conversation so far.'', ''Dungeon Master: A door creaks.'']
   \<and> message_history (snd (snd (DialogueSimulator_step two_agent_sim two_agent_heap)) 1) =
       [''Here is the conversation so far.'', ''Dungeon Master: A door creaks.'']"
proof -
  have sel: "sim_select_next_speaker two_agent_sim (sim_step two_agent_sim)
               (map two_agent_heap (agents two_agent_sim)) = Inr 0"
    by (simp add: two_agent_sim_def select_next_speaker_def)
  have len: "(0::int) < int (length (agents two_agent_sim))"
    by (simp add: two_agent_sim_def)
  have sp: "(0::nat) = agents two_agent_sim ! nat 0"
    by (simp add: two_agent_sim_def)
  have snd: "fst (DialogueAgent_send (two_agent_heap 0)) = Inr ''A door creaks.''"
    by (simp add: two_agent_heap_def storyteller_def DialogueAgent_init_def
        DialogueAgent_send_def scripted_model_def)
  have en: "''Dungeon Master: A door creaks.'' = name (two_agent_heap 0) @ '': '' @ ''A door creaks.''"
    by (simp add: two_agent_heap_def storyteller_def DialogueAgent_init_def)
  have nm: "name (two_agent_heap 0) = ''Dungeon Master''"
    by (simp add: two_agent_heap_def storyteller_def DialogueAgent_init_def)
  have ags: "agents two_agent_sim = [0, 1]" "sim_step two_agent_sim = 0"
    by (simp_all add: two_agent_sim_def)
  have h0: "message_history (two_agent_heap r) = [''Here is the conversation so far.'']" for r
    by (simp add: two_agent_heap_def storyteller_def harry_def DialogueAgent_init_def)
  from step_returns_speaker_and_broadcasts[OF sel order_refl len sp snd en]
  have run: "DialogueSimulator_step two_agent_sim two_agent_heap =
           (Inr (name (two_agent_heap 0), ''A door creaks.''),
            two_agent_sim\<lparr>sim_step := sim_step two_agent_sim + 1\<rparr>,
            (\<lambda>r. (two_agent_heap r)\<lparr>message_history :=
                     message_history (two_agent_heap r) @
                       replicate (count_list (agents two_agent_sim) r)
                         ''Dungeon Master: A door creaks.''\<rparr>))"
    by (rule conjunct1)
  show ?thesis
    unfolding run by (simp add: nm ags h0)
qed

text \<open>
  C2. With four agents, the designated role at index 0 and three others at 1, 2 and 3,
  \<^verbatim>\<open>select_next_speaker\<close> answers 0, 1, 0, 2, 0, 3, 0, 1, 0 on the steps 0 to 8; on any
  step it answers 0 when the step is even and \<open>(step div 2) mod (4 - 1) + 1\<close> when it is odd.
\<close>

theorem select_next_speaker_four_agents:
  "map (\<lambda>step. select_next_speaker step [a, b, c, d]) [0, 1, 2, 3, 4, 5, 6, 7, 8] =
     map Inr [0, 1, 0, 2, 0, 3, 0, 1, 0]
   \<and> select_next_speaker step [a, b, c, d] =
       Inr (if step mod 2 = 0 then 0
            else (step div 2) mod (int (length [a, b, c, d]) - 1) + 1)"
  by (simp add: select_next_speaker_def)

theorem select_next_speaker_four_agents_witness:
  "map (\<lambda>step. select_next_speaker step [storyteller, harry, harry, harry])
     [0, 1, 2, 3, 4, 5, 6, 7, 8] =
     [Inr 0, Inr 1, Inr 0, Inr 2, Inr 0, Inr 3, Inr 0, Inr 1, Inr 0]
   \<and> select_next_speaker 7 [storyteller, harry, harry, harry] = Inr 1"
  using select_next_speaker_four_agents[of storyteller harry harry harry 7]
  by simp

text \<open>
  C3, as the code has it. \<^verbatim>\<open>DialogueSimulator.reset\<close> resets every agent in the list:
  each of their transcripts becomes the initial one-element list, whatever was injected
  or said before. It leaves every other agent and the simulator itself as they were, so
  the step counter keeps its value: it is 0 afterwards exactly when it was 0 before.
\<close>

theorem simulator_reset_clears_transcripts_keeps_counter:
  "DialogueSimulator_reset sim h =
     (sim, (\<lambda>r. if r \<in> set (agents sim) then DialogueAgent_reset (h r) else h r))
   \<and> sim_step (fst (DialogueSimulator_reset sim h)) = sim_step sim
   \<and> (sim_step (fst (DialogueSimulator_reset sim h)) = 0) = (sim_step sim = 0)
   \<and> (\<forall>r \<in> set (agents sim).
         message_history (snd (DialogueSimulator_reset sim h) r) =
           [''Here is the conversation so far.''])"
  by (simp add: DialogueSimulator_reset_def reset_loop_eq)

theorem simulator_reset_clears_transcripts_keeps_counter_witness:
  "message_history (snd after_inject 1) =
     [''Here is the conversation so far.'', ''Dungeon Master: Find the horcruxes.'']
   \<and> message_history (snd (DialogueSimulator_reset (fst after_inject) (snd after_inject)) 1) =
       [''Here is the conversation so far.'']
   \<and> sim_step (fst (DialogueSimulator_reset (fst after_inject) (snd after_inject))) = 1"
  using simulator_reset_clears_transcripts_keeps_counter[of "fst after_inject" "snd after_inject"]
  by (simp add: after_inject_def DialogueSimulator_inject_def two_agent_sim_def
      two_agent_heap_def harry_def storyteller_def DialogueAgent_init_def)

text \<open>
  The claim C3 as it is written fails: after the opening \<^verbatim>\<open>inject\<close> the counter is 1,
  and it is still 1, not 0, after \<^verbatim>\<open>reset\<close>.
\<close>

theorem simulator_reset_counter_counterexample:
  "sim_step (fst after_inject) = 1
   \<and> sim_step (fst (DialogueSimulator_reset (fst after_inject) (snd after_inject))) \<noteq> 0"
  by (simp add: after_inject_def DialogueSimulator_inject_def DialogueSimulator_reset_def
      two_agent_sim_def)

text \<open>
  C4, as the code has it. For a non-empty agent list and any step, \<^verbatim>\<open>select_next_speaker\<close>
  returns a valid index \<open>0 \<le> i < len(agents)\<close>, except for a list of exactly one agent
  on an odd step, where \<^verbatim>\<open>% (len(agents)-1)\<close> divides by zero and the call raises
  \<^verbatim>\<open>ZeroDivisionError\<close>.
\<close>

theorem select_next_speaker_valid_index:
  "agts \<noteq> [] \<Longrightarrow>
   (if length agts = 1 \<and> step mod 2 \<noteq> 0
    then select_next_speaker step agts = Inl ZeroDivisionError
    else (\<exists>i. select_next_speaker step agts = Inr i \<and> 0 \<le> i \<and> i < int (length agts)))"
  by (cases agts) (auto simp: select_next_speaker_def)

theorem select_next_speaker_valid_index_witness:
  "[storyteller, harry] \<noteq> []
   \<and> (\<exists>i. select_next_speaker 3 [storyteller, harry] = Inr i \<and> 0 \<le> i \<and> i < 2)"
  using select_next_speaker_valid_index[of "[storyteller, harry]" 3]
  by simp

text \<open>
  The claim C4 as it is written fails on the non-empty list of one agent at the
  non-negative step 1: no index is returned.
\<close>

theorem select_next_speaker_single_agent_counterexample:
  "[storyteller] \<noteq> [] \<and> (0::int) \<le> 1
   \<and> select_next_speaker 1 [storyteller] = Inl ZeroDivisionError"
  by (simp add: select_next_speaker_def)

text \<open>
  C5. \<^verbatim>\<open>inject\<close> raises the step counter by exactly 1 and delivers the entry
  \<^verbatim>\<open>"{name}: {message}"\<close> to the transcript of every agent in the list (once for each
  place the agent has in the list, so exactly once when no agent is listed twice), and
  every call of \<^verbatim>\<open>step\<close> that returns a pair raises the counter by exactly 1.
\<close>

theorem inject_and_step_advance_counter:
  "sim_step (fst (DialogueSimulator_inject sim h nm message)) = sim_step sim + 1
   \<and> snd (DialogueSimulator_inject sim h nm message) =
       (\<lambda>r. (h r)\<lparr>message_history :=
                message_history (h r) @
                  replicate (count_list (agents sim) r) (nm @ '': '' @ message)\<rparr>)
   \<and> (\<forall>r \<in> set (agents sim). \<exists>k > 0.
         message_history (snd (DialogueSimulator_inject sim h nm message) r) =
           message_history (h r) @ replicate k (nm @ '': '' @ message))
   \<and> (distinct (agents sim) \<longrightarrow>
        (\<forall>r \<in> set (agents sim).
           message_history (snd (DialogueSimulator_inject sim h nm message) r) =
             message_history (h r) @ [nm @ '': '' @ message]))
   \<and> (\<forall>res. fst (DialogueSimulator_step sim h) = Inr res \<longrightarrow>
         sim_step (fst (snd (DialogueSimulator_step sim h))) = sim_step sim + 1)"
proof -
  have heap: "snd (DialogueSimulator_inject sim h nm message) =
       (\<lambda>r. (h r)\<lparr>message_history :=
                message_history (h r) @
                  replicate (count_list (agents sim) r) (nm @ '': '' @ message)\<rparr>)"
    by (simp add: DialogueSimulator_inject_def inject_loop_eq)
  have counter: "sim_step (fst (DialogueSimulator_inject sim h nm message)) = sim_step sim + 1"
    by (simp add: DialogueSimulator_inject_def)
  have some: "\<exists>k > 0. message_history (snd (DialogueSimulator_inject sim h nm message) r) =
           message_history (h r) @ replicate k (nm @ '': '' @ message)"
    if "r \<in> set (agents sim)" for r
    using count_list_pos[OF that] by (auto simp: heap)
  have one: "message_history (snd (DialogueSimulator_inject sim h nm message) r) =
             message_history (h r) @ [nm @ '': '' @ message]"
    if "distinct (agents sim)" "r \<in> set (agents sim)" for r
    using count_list_distinct[OF that] by (simp add: heap)
  from counter heap some one step_counter show ?thesis by blast
qed

theorem inject_and_step_advance_counter_witness:
  "sim_step (fst after_inject) = 1
   \<and> message_history (snd after_inject 0) =
       [''Here is the conversation so far.'', ''Dungeon Master: Find the horcruxes.'']
   \<and> message_history (snd after_inject 1) =
       [''Here is the conversation so far.'', ''Dungeon Master: Find the horcruxes.'']
   \<and> fst (DialogueSimulator_step two_agent_sim two_agent_heap) =
       Inr (''Dungeon Master'', ''A door creaks.'')
   \<and> sim_step (fst (snd (DialogueSimulator_step two_agent_sim two_agent_heap))) = 1"
proof -
  have run: "fst (DialogueSimulator_step two_agent_sim two_agent_heap) =
       Inr (''Dungeon Master'', ''A door creaks.'')"
    by (simp add: DialogueSimulator_step_def two_agent_sim_def select_next_speaker_def
        list_getitem_def two_agent_heap_def storyteller_def harry_def DialogueAgent_init_def
        DialogueAgent_send_def scripted_model_def Let_def DialogueAgent_receive_def
        DialogueAgent_reset_def)
  have h0: "message_history (two_agent_heap r) = [''Here is the conversation so far.'']" for r
    by (simp add: two_agent_heap_def storyteller_def harry_def DialogueAgent_init_def)
  have ags: "agents two_agent_sim = [0, 1]" "sim_step two_agent_sim = 0"
    by (simp_all add: two_agent_sim_def)
  note fact = inject_and_step_advance_counter[of two_agent_sim two_agent_heap
      "''Dungeon Master''" "''Find the horcruxes.''"]
  from fact have c: "sim_step (fst after_inject) = sim_step two_agent_sim + 1"
    unfolding after_inject_def by (rule conjunct1)
  from fact have hp: "snd after_inject =
       (\<lambda>r. (two_agent_heap r)\<lparr>message_history :=
                message_history (two_agent_heap r) @
                  replicate (count_list (agents two_agent_sim) r)
                    (''Dungeon Master'' @ '': '' @ ''Find the horcruxes.'')\<rparr>)"
    unfolding after_inject_def by blast
  from fact run have st: "sim_step (fst (snd (DialogueSimulator_step two_agent_sim two_agent_heap))) =
      sim_step two_agent_sim + 1"
    by blast
  show ?thesis
    unfolding hp by (simp add: c st run ags h0)
qed

text \<open>
  C6, as the code has it. \<^verbatim>\<open>step\<close> has no range check of its own: it indexes the list
  with \<^verbatim>\<open>self.agents[speaker_idx]\<close>. When the selection function returns an index
  \<open>idx\<close> with \<open>idx \<ge> len(agents)\<close> or \<open>idx < -len(agents)\<close>, the indexing raises
  \<^verbatim>\<open>IndexError\<close> before any message is generated or broadcast, and the step counter and
  every agent are left unchanged. Every index with \<open>-len(agents) \<le> idx < 0\<close> is accepted
  and selects \<^verbatim>\<open>agents[len(agents) + idx]\<close>: \<^verbatim>\<open>step\<close> then goes on with that speaker as it
  does for a valid index, returning its name and message, broadcasting the entry and
  advancing the counter, or, when the speaker's \<^verbatim>\<open>send\<close> raises, passing that exception
  on with nothing changed.
\<close>

theorem step_follows_list_indexing:
  assumes "sim_select_next_speaker sim (sim_step sim) (map h (agents sim)) = Inr idx"
    and "n = int (length (agents sim))"
    and "speaker = agents sim ! nat (n + idx)"
  shows "(idx < - n \<or> n \<le> idx \<longrightarrow> DialogueSimulator_step sim h = (Inl IndexError, sim, h))
       \<and> (- n \<le> idx \<and> idx < 0 \<longrightarrow>
            list_getitem (agents sim) idx = Inr speaker
            \<and> DialogueSimulator_step sim h =
                (case fst (DialogueAgent_send (h speaker)) of
                   Inl e \<Rightarrow> (Inl e, sim, h)
                 | Inr message \<Rightarrow>
                     (Inr (name (h speaker), message), sim\<lparr>sim_step := sim_step sim + 1\<rparr>,
                      (\<lambda>r. (h r)\<lparr>message_history := message_history (h r) @
                               replicate (count_list (agents sim) r)
                                 (name (h speaker) @ '': '' @ message)\<rparr>))))"
proof (intro conjI impI)
  assume "idx < - n \<or> n \<le> idx"
  then have "list_getitem (agents sim) idx = Inl IndexError"
    unfolding assms(2) by (rule getitem_out_of_range)
  then show "DialogueSimulator_step sim h = (Inl IndexError, sim, h)"
    unfolding DialogueSimulator_step_def by (simp add: assms(1))
next
  assume neg: "- n \<le> idx \<and> idx < 0"
  then show get: "list_getitem (agents sim) idx = Inr speaker"
    unfolding assms(2,3) by (simp add: getitem_negative)
  show "DialogueSimulator_step sim h =
                (case fst (DialogueAgent_send (h speaker)) of
                   Inl e \<Rightarrow> (Inl e, sim, h)
                 | Inr message \<Rightarrow>
                     (Inr (name (h speaker), message), sim\<lparr>sim_step := sim_step sim + 1\<rparr>,
                      (\<lambda>r. (h r)\<lparr>message_history := message_history (h r) @
                               replicate (count_list (agents sim) r)
                                 (name (h speaker) @ '': '' @ message)\<rparr>)))"
    using assms(1) get by (rule step_with_speaker)
qed

theorem step_follows_list_indexing_witness:
  "DialogueSimulator_step beyond_end_sim two_agent_heap =
     (Inl IndexError, beyond_end_sim, two_agent_heap)
   \<and> list_getitem (agents minus_one_sim) (- 1) = Inr 1
   \<and> DialogueSimulator_step minus_one_sim two_agent_heap =
       (Inr (''Harry Potter'', ''I draw my wand.''), minus_one_sim\<lparr>sim_step := 1\<rparr>,
        (\<lambda>r. (two_agent_heap r)\<lparr>message_history :=
                 message_history (two_agent_heap r) @
                   replicate (count_list [0, 1] r) ''Harry Potter: I draw my wand.''\<rparr>))"
proof -
  have sel2: "sim_select_next_speaker beyond_end_sim (sim_step beyond_end_sim)
     (map two_agent_heap (agents beyond_end_sim)) = Inr 2"
    by (simp add: beyond_end_sim_def select_constant_def)
  have len2: "(2::int) = int (length (agents beyond_end_sim))"
    by (simp add: beyond_end_sim_def)
  have far: "DialogueSimulator_step beyond_end_sim two_agent_heap =
     (Inl IndexError, beyond_end_sim, two_agent_heap)"
    using step_follows_list_indexing[OF sel2 len2 refl] by simp
  have sel1: "sim_select_next_speaker minus_one_sim (sim_step minus_one_sim)
     (map two_agent_heap (agents minus_one_sim)) = Inr (- 1)"
    by (simp add: minus_one_sim_def select_constant_def)
  have len1: "(2::int) = int (length (agents minus_one_sim))"
    by (simp add: minus_one_sim_def)
  have sp: "(1::nat) = agents minus_one_sim ! nat (2 + - 1)"
    by (simp add: minus_one_sim_def)
  have snd: "fst (DialogueAgent_send (two_agent_heap 1)) = Inr ''I draw my wand.''"
    by (simp add: two_agent_heap_def harry_def DialogueAgent_init_def
        DialogueAgent_send_def scripted_model_def)
  have nm: "name (two_agent_heap 1) = ''Harry Potter''"
    by (simp add: two_agent_heap_def harry_def DialogueAgent_init_def)
  have ags: "agents minus_one_sim = [0, 1]" "sim_step minus_one_sim = 0"
    by (simp_all add: minus_one_sim_def)
  have neg: "- 2 \<le> (- 1 :: int) \<and> (- 1 :: int) < 0"
    by simp
  from step_follows_list_indexing[OF sel1 len1 sp, THEN conjunct2, THEN mp, OF neg]
  have raw: "list_getitem (agents minus_one_sim) (- 1) = Inr 1
     \<and> DialogueSimulator_step minus_one_sim two_agent_heap =
       (Inr (''Harry Potter'', ''I draw my wand.''),
        minus_one_sim\<lparr>sim_step := sim_step minus_one_sim + 1\<rparr>,
        (\<lambda>r. (two_agent_heap r)\<lparr>message_history :=
                 message_history (two_agent_heap r) @
                   replicate (count_list (agents minus_one_sim) r)
                     (''Harry Potter'' @ '': '' @ ''I draw my wand.'')\<rparr>))"
    by (simp only: snd nm sum.case)
  then have near: "list_getitem (agents minus_one_sim) (- 1) = Inr 1
     \<and> DialogueSimulator_step minus_one_sim two_agent_heap =
       (Inr (''Harry Potter'', ''I draw my wand.''), minus_one_sim\<lparr>sim_step := 1\<rparr>,
        (\<lambda>r. (two_agent_heap r)\<lparr>message_history :=
                 message_history (two_agent_heap r) @
                   replicate (count_list [0, 1] r) ''Harry Potter: I draw my wand.''\<rparr>))"
    unfolding ags by simp
  from far near show ?thesis by simp
qed

text \<open>
  The claim C6 as it is written fails on the index \<open>-1\<close>, which is no valid index
  \<open>0 \<le> i < len(agents)\<close>: Python reads \<^verbatim>\<open>agents[-1]\<close> as the last agent, so \<^verbatim>\<open>step\<close>
  goes on, the last agent speaks, the message is broadcast and the counter advances.
\<close>

theorem step_negative_index_counterexample:
  "sim_select_next_speaker minus_one_sim (sim_step minus_one_sim)
     (map two_agent_heap (agents minus_one_sim)) = Inr (- 1)
   \<and> \<not> (0 \<le> (- 1 :: int) \<and> (- 1 :: int) < int (length (agents minus_one_sim)))
   \<and> fst (DialogueSimulator_step minus_one_sim two_agent_heap) =
       Inr (''Harry Potter'', ''I draw my wand.'')
   \<and> sim_step (fst (snd (DialogueSimulator_step minus_one_sim two_agent_heap))) = 1
   \<and> message_history (snd (snd (DialogueSimulator_step minus_one_sim two_agent_heap)) 0) =
       [''Here is the conversation so far.'', ''Harry Potter: I draw my wand.'']"
  by (simp add: DialogueSimulator_step_def minus_one_sim_def select_constant_def
      list_getitem_def two_agent_heap_def storyteller_def harry_def DialogueAgent_init_def
      DialogueAgent_send_def scripted_model_def Let_def DialogueAgent_receive_def
      DialogueAgent_reset_def)




text \<open>
  C8. \<^verbatim>\<open>receive(name, message)\<close> appends exactly the one string \<^verbatim>\<open>"{name}: {message}"\<close>
  to the end of the agent's transcript: the transcript grows by one, its earlier entries
  stay as they were and in their order, the new last entry is that string, and no other
  attribute of the agent changes.
\<close>

theorem receive_appends_one_entry:
  "message_history (DialogueAgent_receive a nm message) =
     message_history a @ [nm @ '': '' @ message]
   \<and> length (message_history (DialogueAgent_receive a nm message)) =
       length (message_history a) + 1
   \<and> take (length (message_history a)) (message_history (DialogueAgent_receive a nm message)) =
       message_history a
   \<and> last (message_history (DialogueAgent_receive a nm message)) = nm @ '': '' @ message
   \<and> DialogueAgent_receive a nm message =
       a\<lparr>message_history := message_history (DialogueAgent_receive a nm message)\<rparr>"
  by (simp add: DialogueAgent_receive_def)

theorem receive_appends_one_entry_witness:
  "message_history (DialogueAgent_receive harry ''Dungeon Master'' ''Go on.'') =
     [''Here is the conversation so far.'', ''Dungeon Master: Go on.'']"
  using receive_appends_one_entry[of harry "''Dungeon Master''" "''Go on.''"]
  by (simp add: harry_def DialogueAgent_init_def)

text \<open>
  C9, as the code has it. On binary64 floats \<^verbatim>\<open>relevance_score_fn(score)\<close> is
  \<open>1 - score / sqrt 2\<close> with each operation rounded to the nearest double. For every
  double \<open>score\<close> with \<open>0 \<le> score \<le> sqrt 2\<close>, and up to \<^verbatim>\<open>math.sqrt(2)\<close> itself, the
  result lies in \<open>[0, 1]\<close>; score 0 gives exactly 1 and score \<^verbatim>\<open>math.sqrt(2)\<close> gives
  exactly 0; and the function never increases: a larger score gives a result that is
  smaller or equal.
\<close>

theorem relevance_score_fn_on_doubles:
  "relevance_score_fn score =
     round_nearest_even (1 - round_nearest_even (score / round_nearest_even (sqrt 2)))
   \<and> relevance_score_fn score \<in> doubles
   \<and> (score \<in> doubles \<and> 0 \<le> score \<and> score \<le> sqrt 2 \<longrightarrow>
        0 \<le> relevance_score_fn score \<and> relevance_score_fn score \<le> 1)
   \<and> (0 \<le> score \<and> score \<le> math_sqrt_2 \<longrightarrow>
        0 \<le> relevance_score_fn score \<and> relevance_score_fn score \<le> 1)
   \<and> relevance_score_fn 0 = 1
   \<and> relevance_score_fn math_sqrt_2 = 0
   \<and> (score \<le> score' \<longrightarrow> relevance_score_fn score' \<le> relevance_score_fn score)"
proof -
  have eq: "relevance_score_fn score =
     round_nearest_even (1 - round_nearest_even (score / round_nearest_even (sqrt 2)))"
    by (simp add: relevance_score_fn_def math_sqrt_2_def)
  have dbl: "relevance_score_fn score \<in> doubles"
    unfolding relevance_score_fn_def by (rule round_is_double)
  have r1: "0 \<le> relevance_score_fn score \<and> relevance_score_fn score \<le> 1"
    if "score \<in> doubles \<and> 0 \<le> score \<and> score \<le> sqrt 2"
    using that by (intro relevance_range double_below_sqrt2) simp_all
  have r2: "0 \<le> relevance_score_fn score \<and> relevance_score_fn score \<le> 1"
    if "0 \<le> score \<and> score \<le> math_sqrt_2"
    using that by (intro relevance_range) simp_all
  have mono: "relevance_score_fn score' \<le> relevance_score_fn score" if "score \<le> score'"
    using that by (rule relevance_antimono)
  from eq dbl r1 r2 mono relevance_zero relevance_sqrt2 show ?thesis
    by blast
qed

theorem relevance_score_fn_on_doubles_witness:
  "(1::real) \<in> doubles \<and> (0::real) \<le> 1 \<and> 1 \<le> sqrt 2
   \<and> 0 \<le> relevance_score_fn 1 \<and> relevance_score_fn 1 \<le> 1
   \<and> relevance_score_fn 0 = 1
   \<and> relevance_score_fn math_sqrt_2 \<le> relevance_score_fn 1"
proof -
  have pre: "(1::real) \<in> doubles \<and> (0::real) \<le> 1 \<and> 1 \<le> sqrt 2"
    by (simp add: one_double)
  have le: "1 \<le> math_sqrt_2"
    by (rule sqrt2_at_least_one)
  from relevance_score_fn_on_doubles[of 1 math_sqrt_2] pre le show ?thesis
    by blast
qed

text \<open>
  The claim C9 as it is written fails in its last part: the function is not strictly
  decreasing. The scores 0 and \<open>2^-60\<close> are both doubles, the second is the larger, and
  both give exactly 1: the quotient is at most \<open>2^-60\<close>, and 1 is the only double within
  \<open>2^-59\<close> of 1.
\<close>

theorem relevance_score_fn_not_strict_counterexample:
  "(0::real) \<in> doubles \<and> (1 / 2 ^ 60 :: real) \<in> doubles \<and> (0::real) < 1 / 2 ^ 60
   \<and> relevance_score_fn 0 = 1 \<and> relevance_score_fn (1 / 2 ^ 60) = 1
   \<and> \<not> relevance_score_fn (1 / 2 ^ 60) < relevance_score_fn 0"
proof -
  have "\<not> relevance_score_fn (1 / 2 ^ 60) < relevance_score_fn 0"
    unfolding relevance_zero relevance_tiny by simp
  moreover have "(0::real) < 1 / 2 ^ 60"
    by simp
  ultimately show ?thesis
    using zero_double tiny_double relevance_zero relevance_tiny by blast
qed

text \<open>
  C10. The transcript of an agent is never empty. Right after construction and right
  after \<^verbatim>\<open>reset\<close> it is exactly the one-element list holding
  \<^verbatim>\<open>"Here is the conversation so far."\<close>; after \<open>n\<close> calls of \<^verbatim>\<open>receive\<close> that follow,
  it has \<open>n + 1\<close> entries with that sentence first; \<^verbatim>\<open>send\<close> returns the agent as it
  was; and after any sequence of \<^verbatim>\<open>reset\<close>, \<^verbatim>\<open>send\<close> and \<^verbatim>\<open>receive\<close> calls on a constructed
  agent the transcript is non-empty and starts with that sentence.
\<close>

theorem transcript_never_empty:
  "message_history (DialogueAgent_init nm sysmsg mdl) = [''Here is the conversation so far.'']
   \<and> message_history (DialogueAgent_reset a) = [''Here is the conversation so far.'']
   \<and> message_history (receive_all (DialogueAgent_reset a) msgs) =
       ''Here is the conversation so far.'' # map (\<lambda>(nm, message). nm @ '': '' @ message) msgs
   \<and> length (message_history (receive_all (DialogueAgent_reset a) msgs)) = length msgs + 1
   \<and> length (message_history (receive_all (DialogueAgent_init nm sysmsg mdl) msgs)) =
       length msgs + 1
   \<and> hd (message_history (receive_all (DialogueAgent_init nm sysmsg mdl) msgs)) =
       ''Here is the conversation so far.''
   \<and> snd (DialogueAgent_send a) = a
   \<and> message_history (foldl agent_do (DialogueAgent_init nm sysmsg mdl) calls) \<noteq> []
   \<and> hd (message_history (foldl agent_do (DialogueAgent_init nm sysmsg mdl) calls)) =
       ''Here is the conversation so far.''"
proof -
  have start: "\<exists>rest. message_history (DialogueAgent_init nm sysmsg mdl) =
      ''Here is the conversation so far.'' # rest"
    by (simp add: DialogueAgent_init_def)
  from calls_keep_first[OF start] obtain rest where
    "message_history (foldl agent_do (DialogueAgent_init nm sysmsg mdl) calls) =
       ''Here is the conversation so far.'' # rest"
    by blast
  then show ?thesis
    by (simp add: history_receive_all DialogueAgent_init_def)
qed

theorem transcript_never_empty_witness:
  "message_history
     (foldl agent_do harry
        [Receive ''Dungeon Master'' ''Go on.'', Send, Receive ''Harry Potter'' ''I draw my wand.'']) =
     [''Here is the conversation so far.'', ''Dungeon Master: Go on.'',
      ''Harry Potter: I draw my wand.'']
   \<and> message_history
       (foldl agent_do harry [Receive ''Dungeon Master'' ''Go on.'', Reset, Send]) =
       [''Here is the conversation so far.'']"
  using transcript_never_empty[of "''Harry Potter''" "SystemMessage ''Your name is Harry Potter.''"
      "scripted_model ''I draw my wand.''" harry "[]" "[Receive ''Dungeon Master'' ''Go on.'', Reset, Send]"]
  by (simp add: harry_def DialogueAgent_init_def)

end
